theory Spec2Isabelle
  imports Complex_Main "HOL-Library.While_Combinator" "HOL-Library.Stream"
begin

section \<open>Numbers\<close>

text \<open>
  The TypeScript sources compute with JavaScript numbers, which are IEEE 754 binary64 values.
  The trigonometric functions are only approximated by an implementation, and the geometric
  laws of the specification are stated up to floating-point tolerance: angles, rotations and
  orbital elements are therefore modelled as reals with exact arithmetic, the exact law being
  what such a statement idealises. Where a result depends on how an operation is rounded, the
  operation is modelled as ECMAScript prescribes it, by rounding the exact result to the
  nearest binary64 value, ties to even (\<open>fl\<close> below):
  \<^item> the loop counter of \<open>rebuildOrbitPath\<close>, which accumulates \<open>360 / steps\<close> by repeated
    addition and decides how many points the path has;
  \<^item> the projection of a camera-space point to the screen, whose denominator can be exactly
    zero and whose results can be \<open>Infinity\<close> or \<open>NaN\<close>;
  \<^item> the coordinates, radius and opacity of a generated star, whose ranges are claimed with
    an open upper end.
\<close>

datatype jsnum = Num real | PosInfinity | NegInfinity | NaN

fun is_finite :: "jsnum \<Rightarrow> bool" where
  "is_finite (Num _) = True"
| "is_finite _ = False"

text \<open>\<open>Math.round\<close>: the nearest integer, a tie going towards \<open>+Infinity\<close>.\<close>

definition Math_round :: "real \<Rightarrow> real" where
  "Math_round v = of_int \<lfloor>v + 1 / 2\<rfloor>"

subsection \<open>binary64 rounding\<close>

definition round_half_even :: "real \<Rightarrow> int" where
  "round_half_even v =
     (let f = \<lfloor>v\<rfloor>; r = v - of_int f
      in if r < 1 / 2 then f else if 1 / 2 < r then f + 1 else if even f then f else f + 1)"

text \<open>
  \<open>binade fuel k v\<close> walks from the exponent \<open>k\<close> to the exponent \<open>j\<close> with
  \<open>2^j \<le> v < 2^(j+1)\<close>. The exponents of binary64 lie between \<open>-1074\<close> and \<open>1023\<close>, so a walk
  that starts at 0 with fuel 1100 arrives for every positive value in range.
\<close>

fun binade :: "nat \<Rightarrow> int \<Rightarrow> real \<Rightarrow> int" where
  "binade fuel k v =
     (if fuel = 0 then k
      else if v < 2 powi k then binade (fuel - 1) (k - 1) v
      else if 2 powi (k + 1) \<le> v then binade (fuel - 1) (k + 1) v
      else k)"

declare binade.simps [simp del]

text \<open>
  The unit in the last place: 52 binary digits below the leading one, and \<open>2^-1074\<close>
  throughout the subnormal range.
\<close>

definition ulp :: "real \<Rightarrow> real" where
  "ulp v = 2 powi (max (binade 1100 0 \<bar>v\<bar>) (- 1022) - 52)"

text \<open>
  The binary64 value nearest to \<open>v\<close>, ties to even, for \<open>\<bar>v\<bar>\<close> below the overflow threshold
  \<open>2^1024\<close> (the counter of \<open>rebuildOrbitPath\<close> never exceeds 720).
\<close>

definition fl :: "real \<Rightarrow> real" where
  "fl v = of_int (round_half_even (v / ulp v)) * ulp v"


subsection \<open>Arithmetic on numbers\<close>

text \<open>
  The number that an operation delivers when its exact result is \<open>v\<close>: the rounded value, or an
  infinity when \<open>v\<close> reaches half an ulp beyond the largest binary64 value \<open>2^1024 - 2^971\<close>.
\<close>

definition binary64_limit :: real where
  "binary64_limit = 2 ^ 1024 - 2 ^ 970"

definition js_number :: "real \<Rightarrow> jsnum" where
  "js_number v =
     (if binary64_limit \<le> v then PosInfinity
      else if v \<le> - binary64_limit then NegInfinity
      else Num (fl v))"


fun js_times :: "jsnum \<Rightarrow> jsnum \<Rightarrow> jsnum" where
  "js_times (Num a) (Num b) = js_number (a * b)"
| "js_times NaN _ = NaN"
| "js_times _ NaN = NaN"
| "js_times (Num a) PosInfinity =
     (if 0 < a then PosInfinity else if a < 0 then NegInfinity else NaN)"
| "js_times (Num a) NegInfinity =
     (if 0 < a then NegInfinity else if a < 0 then PosInfinity else NaN)"
| "js_times PosInfinity (Num b) =
     (if 0 < b then PosInfinity else if b < 0 then NegInfinity else NaN)"
| "js_times NegInfinity (Num b) =
     (if 0 < b then NegInfinity else if b < 0 then PosInfinity else NaN)"
| "js_times PosInfinity PosInfinity = PosInfinity"
| "js_times NegInfinity NegInfinity = PosInfinity"
| "js_times PosInfinity NegInfinity = NegInfinity"
| "js_times NegInfinity PosInfinity = NegInfinity"


section \<open>canvas/math.ts\<close>

type_synonym vec3 = "real \<times> real \<times> real"

definition rotateX :: "vec3 \<Rightarrow> real \<Rightarrow> vec3" where
  "rotateX point angle =
     (case point of (x, y, z) \<Rightarrow>
        let c = cos angle; s = sin angle
        in (x, y * c - z * s, y * s + z * c))"

definition rotateY :: "vec3 \<Rightarrow> real \<Rightarrow> vec3" where
  "rotateY point angle =
     (case point of (x, y, z) \<Rightarrow>
        let c = cos angle; s = sin angle
        in (x * c + z * s, y, - x * s + z * c))"





subsection \<open>The projection as the specification words it\<close>









section \<open>canvas/orbit.ts\<close>

text \<open>
  Field names carry a prefix: a record field is a constant of the whole theory, and the
  sources call their fields \<open>x\<close>, \<open>y\<close>, \<open>a\<close>, \<open>e\<close>.
\<close>

record OrbitParams =
  orb_a :: real
  orb_e :: real
  orb_i :: real
  orb_raan :: real
  orb_w :: real

record Point =
  pt_x :: real
  pt_y :: real
  pt_z :: real

text \<open>
  The body of the loop of \<open>rebuildOrbitPath\<close>: the point pushed for the counter value \<open>deg\<close>.
  The conic denominator \<open>1 + e * cos nu\<close> is positive whenever \<open>\<bar>e\<bar> < 1\<close>, which is all that
  the controller passes and all that the theorems below assume.
\<close>

definition rebuildOrbitPath_body :: "OrbitParams \<Rightarrow> real \<Rightarrow> Point" where
  "rebuildOrbitPath_body params deg =
     (let a = orb_a params; e = orb_e params; i = orb_i params;
          raan = orb_raan params; w = orb_w params;
          nu = (deg * pi) / 180;
          r = a * (1 - e * e) / (1 + e * cos nu);
          x_orb = r * cos nu;
          y_orb = r * sin nu;
          cosO = cos raan; sinO = sin raan;
          cosi = cos i; sini = sin i;
          cosw = cos w; sinw = sin w;
          x = (cosO * cosw - sinO * sinw * cosi) * x_orb + (- cosO * sinw - sinO * cosw * cosi) * y_orb;
          y = (sinO * cosw + cosO * sinw * cosi) * x_orb + (- sinO * sinw + cosO * cosw * cosi) * y_orb;
          z = (sinw * sini) * x_orb + (cosw * sini) * y_orb
      in \<lparr>pt_x = x, pt_y = y, pt_z = z\<rparr>)"

text \<open>The value of the local \<open>r\<close> in that body.\<close>

definition conic_radius :: "OrbitParams \<Rightarrow> real \<Rightarrow> real" where
  "conic_radius params deg =
     orb_a params * (1 - orb_e params * orb_e params) / (1 + orb_e params * cos ((deg * pi) / 180))"

text \<open>
  \<open>for (let deg = 0; deg < 360; deg += 360 / steps)\<close>: the state of the loop is the counter
  and the points pushed so far. The quotient and every sum are rounded to binary64. A loop
  that never leaves (a negative \<open>steps\<close>) is the value \<open>None\<close>. With \<open>steps = 0\<close> the
  increment is \<open>Infinity\<close>, and the loop leaves after the first point. The argument \<open>None\<close>
  is the omitted argument, with the default 360.
\<close>

definition rebuildOrbitPath :: "OrbitParams \<Rightarrow> real option \<Rightarrow> Point list option" where
  "rebuildOrbitPath params steps_arg =
     (let steps = (case steps_arg of None \<Rightarrow> 360 | Some n \<Rightarrow> n)
      in if steps = 0 then Some [rebuildOrbitPath_body params 0]
         else map_option snd
                (while_option (\<lambda>(deg, points). deg < 360)
                   (\<lambda>(deg, points).
                      (fl (deg + fl (360 / steps)), points @ [rebuildOrbitPath_body params deg]))
                   (0, [])))"

definition distance_to_origin :: "Point \<Rightarrow> real" where
  "distance_to_origin p = sqrt ((pt_x p)\<^sup>2 + (pt_y p)\<^sup>2 + (pt_z p)\<^sup>2)"

subsection \<open>The drawing surface\<close>

text \<open>
  A \<open>CanvasRenderingContext2D\<close> is modelled by what it has received: the method calls and
  property assignments, oldest first.
\<close>

datatype canvas_op =
    Save | Restore | BeginPath | ClosePath | Stroke | Fill
  | MoveTo real real | LineTo real real
  | Arc real real real real real
  | SetImageSmoothingEnabled bool
  | SetLineCap string | SetLineJoin string
  | SetLineDash "real list"
  | SetStrokeStyle string
  | SetFillStyle string
  | SetLineWidth real

type_synonym canvas = "canvas_op list"

text \<open>The loop of \<open>drawOrbitPath\<close>, with its variables \<open>started\<close> and \<open>first\<close>.\<close>

fun drawOrbitPath_loop ::
  "(vec3 \<Rightarrow> real \<times> real) \<Rightarrow> real \<Rightarrow> Point list
   \<Rightarrow> canvas \<times> bool \<times> (real \<times> real) option \<Rightarrow> canvas \<times> bool \<times> (real \<times> real) option" where
  "drawOrbitPath_loop project3D SCALE [] state = state"
| "drawOrbitPath_loop project3D SCALE (p # rest) (ctx, started, first) =
     (case project3D (pt_x p * SCALE, pt_y p * SCALE, pt_z p * SCALE) of (sx, sy) \<Rightarrow>
        if \<not> started
        then drawOrbitPath_loop project3D SCALE rest
               (ctx @ [BeginPath, MoveTo (Math_round sx) (Math_round sy)],
                True, Some (Math_round sx, Math_round sy))
        else drawOrbitPath_loop project3D SCALE rest
               (ctx @ [LineTo (Math_round sx) (Math_round sy)], started, first))"

definition drawOrbitPath ::
  "canvas \<Rightarrow> (vec3 \<Rightarrow> real \<times> real) \<Rightarrow> real \<Rightarrow> Point list \<Rightarrow> canvas" where
  "drawOrbitPath ctx project3D SCALE path =
     (if length path = 0 then ctx
      else
        let ctx1 = ctx @ [Save, SetImageSmoothingEnabled False, SetLineCap ''round'',
                          SetLineJoin ''round'', SetLineDash [6, 6],
                          SetStrokeStyle ''rgba(255, 107, 53, 0.9)'', SetLineWidth 2]
        in case drawOrbitPath_loop project3D SCALE path (ctx1, False, None) of
             (ctx2, started, first) \<Rightarrow>
               (case first of
                  Some (fx, fy) \<Rightarrow>
                    (if started then ctx2 @ [LineTo fx fy, Stroke] else ctx2) @ [Restore]
                | None \<Rightarrow> ctx2 @ [Restore]))"

section \<open>canvas/satellite.ts\<close>

definition drawSatellite ::
  "canvas \<Rightarrow> (unit \<Rightarrow> Point option) \<Rightarrow> (vec3 \<Rightarrow> real \<times> real) \<Rightarrow> real \<Rightarrow> canvas" where
  "drawSatellite ctx getWorldPosition project3D SCALE =
     (case getWorldPosition () of
        None \<Rightarrow> ctx
      | Some pos \<Rightarrow>
          (case project3D (pt_x pos * SCALE, pt_y pos * SCALE, pt_z pos * SCALE) of (sx, sy) \<Rightarrow>
             let cubeSize = 6; panelSize = 12; panelOffset = cubeSize + 3
             in ctx @
                [SetImageSmoothingEnabled False, SetLineCap ''square'', SetLineJoin ''miter'',
                 SetStrokeStyle ''#ff6b35'', SetLineWidth 2,
                 BeginPath,
                 MoveTo (Math_round (sx - cubeSize)) (Math_round (sy - cubeSize)),
                 LineTo (Math_round (sx + cubeSize)) (Math_round (sy - cubeSize)),
                 LineTo (Math_round (sx + cubeSize)) (Math_round (sy + cubeSize)),
                 LineTo (Math_round (sx - cubeSize)) (Math_round (sy + cubeSize)),
                 ClosePath,
                 MoveTo (Math_round (sx - cubeSize + 2)) (Math_round (sy - cubeSize + 2)),
                 LineTo (Math_round (sx + cubeSize + 2)) (Math_round (sy - cubeSize + 2)),
                 LineTo (Math_round (sx + cubeSize + 2)) (Math_round (sy + cubeSize + 2)),
                 LineTo (Math_round (sx - cubeSize + 2)) (Math_round (sy + cubeSize + 2)),
                 ClosePath,
                 MoveTo (Math_round (sx - cubeSize)) (Math_round (sy - cubeSize)),
                 LineTo (Math_round (sx - cubeSize + 2)) (Math_round (sy - cubeSize + 2)),
                 MoveTo (Math_round (sx + cubeSize)) (Math_round (sy - cubeSize)),
                 LineTo (Math_round (sx + cubeSize + 2)) (Math_round (sy - cubeSize + 2)),
                 MoveTo (Math_round (sx + cubeSize)) (Math_round (sy + cubeSize)),
                 LineTo (Math_round (sx + cubeSize + 2)) (Math_round (sy + cubeSize + 2)),
                 MoveTo (Math_round (sx - cubeSize)) (Math_round (sy + cubeSize)),
                 LineTo (Math_round (sx - cubeSize + 2)) (Math_round (sy + cubeSize + 2)),
                 Stroke,
                 BeginPath,
                 MoveTo (Math_round (sx - panelOffset)) (Math_round (sy - panelSize / 2)),
                 LineTo (Math_round (sx - panelOffset)) (Math_round (sy + panelSize / 2)),
                 LineTo (Math_round (sx - panelOffset - 2)) (Math_round (sy + panelSize / 2)),
                 LineTo (Math_round (sx - panelOffset - 2)) (Math_round (sy - panelSize / 2)),
                 ClosePath,
                 Stroke,
                 BeginPath,
                 MoveTo (Math_round (sx + panelOffset)) (Math_round (sy - panelSize / 2)),
                 LineTo (Math_round (sx + panelOffset)) (Math_round (sy + panelSize / 2)),
                 LineTo (Math_round (sx + panelOffset + 2)) (Math_round (sy + panelSize / 2)),
                 LineTo (Math_round (sx + panelOffset + 2)) (Math_round (sy - panelSize / 2)),
                 ClosePath,
                 Stroke,
                 BeginPath,
                 MoveTo (Math_round (sx - cubeSize)) (Math_round sy),
                 LineTo (Math_round (sx - panelOffset)) (Math_round sy),
                 MoveTo (Math_round (sx + cubeSize)) (Math_round sy),
                 LineTo (Math_round (sx + panelOffset)) (Math_round sy),
                 Stroke]))"

section \<open>canvas/stars.ts\<close>

record Star =
  star_x :: real
  star_y :: real
  star_radius :: real
  star_opacity :: real





section \<open>OrbitCanvas.tsx: the controller\<close>

record Camera =
  cam_x :: real
  cam_y :: real
  cam_z :: real
  rotationX :: real
  rotationY :: real

record MouseState =
  isDown :: bool
  lastX :: real
  lastY :: real

record MouseEvent =
  clientX :: real
  clientY :: real

text \<open>
  The refs of the component that the orbit controls read and write. \<open>canvasRef\<close> holds whether
  the canvas element is mounted, \<open>wasmRef\<close> whether the module is loaded, \<open>satelliteRef\<close> the
  nine arguments the current satellite was constructed with (the propagator itself is outside
  the sources).
\<close>

record Controller =
  canvasRef :: bool
  wasmRef :: bool
  satelliteRef :: "real list option"
  semiMajorAxisRef :: real
  orbitParamsRef :: "OrbitParams option"
  orbitPathRef :: "Point list"
  trailRef :: "(real \<times> real \<times> real \<times> real) list"
  starsRef :: "Star list"

definition EARTH_RADIUS :: real where
  "EARTH_RADIUS = 6371"

text \<open>\<open>semiMajorAxisRef.current || (EARTH_RADIUS + 4000)\<close>: zero is falsy.\<close>

definition activeSemiMajorAxis :: "Controller \<Rightarrow> real" where
  "activeSemiMajorAxis c =
     (if semiMajorAxisRef c \<noteq> 0 then semiMajorAxisRef c else EARTH_RADIUS + 4000)"

definition getSafeMaxE :: "Controller \<Rightarrow> real" where
  "getSafeMaxE c =
     (let a = activeSemiMajorAxis c;
          rawMax = 1 - (EARTH_RADIUS / a)
      in max 0 (min 0.95 (rawMax - 0.01)))"

definition handleMouseMove :: "MouseState \<times> Camera \<Rightarrow> MouseEvent \<Rightarrow> MouseState \<times> Camera" where
  "handleMouseMove state ev =
     (case state of (mouse, prev) \<Rightarrow>
        if \<not> isDown mouse then (mouse, prev)
        else
          let deltaX = clientX ev - lastX mouse;
              deltaY = clientY ev - lastY mouse;
              camera = prev\<lparr>rotationY := rotationY prev + deltaX * 0.01,
                            rotationX := max (- pi / 2) (min (pi / 2) (rotationX prev + deltaY * 0.01))\<rparr>
          in (mouse\<lparr>lastX := clientX ev, lastY := clientY ev\<rparr>, camera))"

text \<open>The closure \<open>rebuildOrbitPath\<close> of the component, which calls the builder with 360 steps.\<close>

definition OrbitCanvas_rebuildOrbitPath :: "Controller \<Rightarrow> Controller option" where
  "OrbitCanvas_rebuildOrbitPath c =
     (case orbitParamsRef c of
        None \<Rightarrow> Some c
      | Some params \<Rightarrow> map_option (\<lambda>path. c\<lparr>orbitPathRef := path\<rparr>) (rebuildOrbitPath params None))"

text \<open>The effect that runs when the inclination or the eccentricity slider changes.\<close>

definition rebuild :: "Controller \<Rightarrow> real \<Rightarrow> real \<Rightarrow> Controller option" where
  "rebuild c inclinationDeg eccentricity =
     (if \<not> wasmRef c then Some c
      else
        let a = activeSemiMajorAxis c;
            eSafe = min eccentricity (1 - (EARTH_RADIUS / a) - 0.01);
            c1 = c\<lparr>satelliteRef := Some [a, max 0 eSafe, inclinationDeg, 0, 0, 0, 1000, 300, 1000]\<rparr>;
            c2 = c1\<lparr>orbitParamsRef := Some
                    \<lparr>orb_a = activeSemiMajorAxis c1,
                     orb_e = max 0 (min eccentricity (getSafeMaxE c1)),
                     orb_i = inclinationDeg * pi / 180,
                     orb_raan = 0,
                     orb_w = 0\<rparr>\<rparr>
        in map_option (\<lambda>c3. c3\<lparr>trailRef := []\<rparr>) (OrbitCanvas_rebuildOrbitPath c2))"



section \<open>binary64 values\<close>

lemma binade_unique:
  fixes v :: real
  assumes "2 powi j \<le> v" "v < 2 powi (j + 1)" "2 powi k \<le> v" "v < 2 powi (k + 1)"
  shows "j = k"
proof (rule ccontr)
  assume "j \<noteq> k"
  then consider "j + 1 \<le> k" | "k + 1 \<le> j" by linarith
  then show False
  proof cases
    case 1
    then have "(2::real) powi (j + 1) \<le> 2 powi k" by (intro power_int_increasing) auto
    then show False using assms(2,3) by linarith
  next
    case 2
    then have "(2::real) powi (k + 1) \<le> 2 powi j" by (intro power_int_increasing) auto
    then show False using assms(1,4) by linarith
  qed
qed

lemma binade_finds:
  fixes v :: real
  assumes "2 powi j \<le> v" "v < 2 powi (j + 1)" "nat \<bar>j - k\<bar> \<le> fuel"
  shows "binade fuel k v = j"
  using assms(3)
proof (induction fuel arbitrary: k)
  case 0
  then show ?case by (simp add: binade.simps)
next
  case (Suc fuel)
  show ?case
  proof (cases "v < 2 powi k")
    case True
    have "j < k"
    proof (rule ccontr)
      assume "\<not> j < k"
      then have "(2::real) powi k \<le> 2 powi j" by (intro power_int_increasing) auto
      then show False using True assms(1) by linarith
    qed
    then have "nat \<bar>j - (k - 1)\<bar> \<le> fuel" using Suc.prems by linarith
    from Suc.IH [OF this] True show ?thesis by (subst binade.simps) simp
  next
    case False
    show ?thesis
    proof (cases "2 powi (k + 1) \<le> v")
      case True
      have "k < j"
      proof (rule ccontr)
        assume "\<not> k < j"
        then have "(2::real) powi (j + 1) \<le> 2 powi (k + 1)" by (intro power_int_increasing) auto
        then show False using True assms(2) by linarith
      qed
      then have "nat \<bar>j - (k + 1)\<bar> \<le> fuel" using Suc.prems by linarith
      from Suc.IH [OF this] True False show ?thesis by (subst binade.simps) simp
    next
      case b: False
      have "j = k" using binade_unique [OF assms(1,2), of k] False b by simp
      then show ?thesis using False b by (subst binade.simps) simp
    qed
  qed
qed

lemma round_half_even_of_int: "round_half_even (of_int m) = m"
  by (simp add: round_half_even_def)

lemma fl_zero: "fl 0 = 0"
  by (simp add: fl_def round_half_even_of_int [of 0, simplified])

lemma fl_of_nat:
  assumes "n < 2 ^ 53"
  shows "fl (real n) = real n"
proof (cases "n = 0")
  case True
  then show ?thesis by (simp add: fl_zero)
next
  case False
  then have "1 \<le> n" by simp
  from ex_power_ivl1 [OF _ this, of 2] obtain j where j: "2 ^ j \<le> n" "n < 2 ^ (j + 1)" by auto
  have "(2::nat) ^ j < 2 ^ 53" using j(1) assms by linarith
  then have j53: "j < 53" by (rule power_less_imp_less_exp [rotated]) simp
  have lo: "(2::real) powi int j \<le> real n"
    using j(1) by (metis of_nat_le_iff of_nat_numeral of_nat_power power_int_of_nat)
  have "real n < 2 ^ (j + 1)"
    using j(2) by (metis of_nat_less_iff of_nat_numeral of_nat_power)
  then have hi: "real n < 2 powi (int j + 1)"
    by (metis of_nat_Suc Suc_eq_plus1 power_int_of_nat of_nat_add of_nat_1)
  have "binade 1100 0 \<bar>real n\<bar> = int j"
    using binade_finds [OF _ _ _, of "int j" "real n" 0 1100] lo hi j53 by simp
  then have u: "ulp (real n) = 2 powi (int j - 52)" by (simp add: ulp_def)
  have "(2::real) powi (int j - 52) = inverse (2 ^ (52 - j))"
  proof -
    have "int j - 52 = - int (52 - j)" using j53 by simp
    then show ?thesis by (simp only: power_int_minus power_int_of_nat)
  qed
  then have u': "ulp (real n) = inverse (2 ^ (52 - j))" using u by simp
  have q: "real n / ulp (real n) = of_int (int (n * 2 ^ (52 - j)))"
    by (simp add: u' divide_inverse)
  have "fl (real n) = of_int (int (n * 2 ^ (52 - j))) * ulp (real n)"
    unfolding fl_def q round_half_even_of_int ..
  also have "\<dots> = real n" by (simp add: u')
  finally show ?thesis .
qed























lemmas fl_eval = fl_def ulp_def binade.simps round_half_even_def Let_def

section \<open>Rotation primitives\<close>

lemma cos_sin_square_scaled: "u * (cos t * cos t) + u * (sin t * sin t) = (u::real)"
proof -
  have "cos t * cos t + sin t * sin t = 1"
    using sin_cos_squared_add3 [of t] by (simp add: power2_eq_square)
  then have "u * (cos t * cos t + sin t * sin t) = u" by simp
  then show ?thesis by (simp only: distrib_left)
qed

lemma rotateX_inverse: "rotateX (rotateX p t) (- t) = p"
  by (cases p) (simp add: rotateX_def Let_def algebra_simps cos_sin_square_scaled)

lemma rotateY_inverse: "rotateY (rotateY p t) (- t) = p"
  by (cases p) (simp add: rotateY_def Let_def algebra_simps cos_sin_square_scaled)

lemma rotateX_zero: "rotateX p 0 = p"
  by (cases p) (simp add: rotateX_def)

lemma rotateY_zero: "rotateY p 0 = p"
  by (cases p) (simp add: rotateY_def)

text \<open>
  Claim C5. Rotating a point about the X axis by an angle and then by the opposite angle gives
  the point back, and likewise about the Y axis; rotating by 0 leaves every point where it is.
\<close>

theorem rotate_round_trip:
  "rotateX (rotateX p theta) (- theta) = p \<and> rotateY (rotateY p theta) (- theta) = p
   \<and> rotateX p 0 = p \<and> rotateY p 0 = p"
  by (simp add: rotateX_inverse rotateY_inverse rotateX_zero rotateY_zero)

section \<open>The projection pipeline\<close>






lemma js_times_infinity_not_finite: "\<not> is_finite (js_times (Num v) PosInfinity)"
  by simp





section \<open>The controller's clamps\<close>

lemma clamp_between:
  fixes lo hi v :: real
  assumes "lo \<le> hi"
  shows "lo \<le> max lo (min hi v)" and "max lo (min hi v) \<le> hi"
  using assms by (simp_all add: max_def min_def)

text \<open>
  Claim C7. After a mouse move with the button down, from any camera and for any movement of
  the pointer, \<open>rotationX\<close> lies in \<open>[-pi/2, pi/2]\<close>; \<open>rotationY\<close> has simply moved by a hundredth
  of the horizontal movement, with no bound applied.
\<close>

theorem handleMouseMove_clamps_rotationX:
  assumes "isDown mouse"
  shows "- pi / 2 \<le> rotationX (snd (handleMouseMove (mouse, camera) ev))
         \<and> rotationX (snd (handleMouseMove (mouse, camera) ev)) \<le> pi / 2
         \<and> rotationY (snd (handleMouseMove (mouse, camera) ev))
             = rotationY camera + (clientX ev - lastX mouse) * 0.01"
proof -
  have "- pi / 2 \<le> pi / 2" using pi_ge_zero by simp
  from clamp_between [OF this] show ?thesis
    using assms by (simp add: handleMouseMove_def Let_def del: max.bounded_iff min.bounded_iff)
qed

theorem handleMouseMove_clamps_rotationX_witness:
  "isDown \<lparr>isDown = True, lastX = 0, lastY = 0\<rparr>
   \<and> rotationX (snd (handleMouseMove
        (\<lparr>isDown = True, lastX = 0, lastY = 0\<rparr>,
         \<lparr>cam_x = 0, cam_y = 0, cam_z = 3000, rotationX = pi / 4, rotationY = pi / 2\<rparr>)
        \<lparr>clientX = 100000, clientY = 100000\<rparr>)) \<le> pi / 2
   \<and> rotationY (snd (handleMouseMove
        (\<lparr>isDown = True, lastX = 0, lastY = 0\<rparr>,
         \<lparr>cam_x = 0, cam_y = 0, cam_z = 3000, rotationX = pi / 4, rotationY = pi / 2\<rparr>)
        \<lparr>clientX = 100000, clientY = 100000\<rparr>)) = pi / 2 + 1000"
  using handleMouseMove_clamps_rotationX
          [of "\<lparr>isDown = True, lastX = 0, lastY = 0\<rparr>"
              "\<lparr>cam_x = 0, cam_y = 0, cam_z = 3000, rotationX = pi / 4, rotationY = pi / 2\<rparr>"
              "\<lparr>clientX = 100000, clientY = 100000\<rparr>"]
  by simp

text \<open>
  Claim C9. Whatever the semi-major axis ref holds, the maximum that \<open>getSafeMaxE\<close> returns lies
  between 0 and 0.95; where \<open>1 - EARTH_RADIUS / a - 0.01\<close> exceeds 0.95 the result is the cap
  0.95 itself.
\<close>

theorem getSafeMaxE_bounds:
  "0 \<le> getSafeMaxE c \<and> getSafeMaxE c \<le> 0.95
   \<and> (0.95 < 1 - EARTH_RADIUS / activeSemiMajorAxis c - 0.01 \<longrightarrow> getSafeMaxE c = 0.95)"
proof -
  have "(0::real) \<le> 0.95" by simp
  from clamp_between [OF this] show ?thesis
    by (simp add: getSafeMaxE_def Let_def max_def min_def)
qed

theorem getSafeMaxE_bounds_witness:
  "0.95 < 1 - EARTH_RADIUS / 1000000 - 0.01
   \<and> getSafeMaxE \<lparr>canvasRef = True, wasmRef = True, satelliteRef = None, semiMajorAxisRef = 1000000,
                   orbitParamsRef = None, orbitPathRef = [], trailRef = [], starsRef = []\<rparr> = 0.95"
  using getSafeMaxE_bounds
          [of "\<lparr>canvasRef = True, wasmRef = True, satelliteRef = None, semiMajorAxisRef = 1000000,
                orbitParamsRef = None, orbitPathRef = [], trailRef = [], starsRef = []\<rparr>"]
  by (simp add: activeSemiMajorAxis_def EARTH_RADIUS_def)

section \<open>The satellite marker\<close>

text \<open>
  Claim C8. When the position accessor returns null, \<open>drawSatellite\<close> returns at once: the
  drawing surface is exactly as it was, having received no call and no property assignment,
  and the function returns normally.
\<close>

theorem drawSatellite_skips_missing_position:
  assumes "getWorldPosition () = None"
  shows "drawSatellite ctx getWorldPosition project3D SCALE = ctx"
  using assms by (simp add: drawSatellite_def)

theorem drawSatellite_skips_missing_position_witness:
  "(\<lambda>_. None :: Point option) () = None
   \<and> drawSatellite [Stroke] (\<lambda>_. None) (\<lambda>(x, y, z). (x, y)) 0.1 = [Stroke]"
  using drawSatellite_skips_missing_position [of "\<lambda>_. None" "[Stroke]" "\<lambda>(x, y, z). (x, y)" "0.1"]
  by simp

section \<open>The star field\<close>





















text \<open>
  The bound on \<open>x\<close> needs a width above \<open>2^-1022\<close>: at that width the product with the largest
  random number rounds back to the width itself.
\<close>

lemma smallest_normal_width:
  "fl ((1 - 1 / 2 ^ 53) * 2 powi (- 1022)) = 2 powi (- 1022)"
proof -
  define u :: real where "u = 2 powi (- 1075)"
  have u0: "0 < u" by (simp add: u_def)
  have a: "(2::real) powi (- 1022) = 2 ^ 53 * u"
    unfolding u_def using power_int_add [of "2::real" 53 "- 1075"] by simp
  have b: "(2::real) powi (- 1023) = 2 ^ 52 * u"
    unfolding u_def using power_int_add [of "2::real" 52 "- 1075"] by simp
  have c: "(2::real) powi (- 1074) = 2 * u"
    unfolding u_def using power_int_add [of "2::real" 1 "- 1075"] by simp
  define q where "q = (1 - 1 / 2 ^ 53) * (2 ^ 53 * u)"
  have q: "q = (2 ^ 53 - 1) * u" by (simp add: q_def algebra_simps)
  have lo: "2 powi (- 1023) \<le> q" unfolding b q using u0 by simp
  have hi: "q < 2 powi (- 1023 + 1)" using u0 a unfolding q by simp
  have q0: "\<bar>q\<bar> = q" using u0 unfolding q by simp
  have fuel: "nat \<bar>- 1023 - (0::int)\<bar> \<le> 1100" by simp
  have "binade 1100 0 q = - 1023" by (rule binade_finds [OF lo hi fuel])
  then have "ulp q = 2 powi (- 1074)" by (simp add: ulp_def q0)
  then have ulp: "ulp q = 2 * u" by (simp only: c)
  have d: "q / (2 * u) = 9007199254740991 / 2" using u0 unfolding q by simp
  have "round_half_even (9007199254740991 / 2) = 4503599627370496"
    by (simp add: round_half_even_def)
  then have "round_half_even (q / (2 * u)) = 4503599627370496" by (simp only: d)
  then have "fl q = 4503599627370496 * (2 * u)" by (simp only: fl_def ulp of_int_numeral)
  then show ?thesis unfolding a q_def [symmetric] by simp
qed

section \<open>The geometry of the orbit\<close>

lemma perifocal_rotation_isometry:
  fixes cO sO ci si cw sw u v :: real
  assumes "cO\<^sup>2 + sO\<^sup>2 = 1" "ci\<^sup>2 + si\<^sup>2 = 1" "cw\<^sup>2 + sw\<^sup>2 = 1"
  shows "((cO * cw - sO * sw * ci) * u + (- cO * sw - sO * cw * ci) * v)\<^sup>2
       + ((sO * cw + cO * sw * ci) * u + (- sO * sw + cO * cw * ci) * v)\<^sup>2
       + ((sw * si) * u + (cw * si) * v)\<^sup>2 = u\<^sup>2 + v\<^sup>2"
  using assms by algebra

lemma body_square_distance:
  "(pt_x (rebuildOrbitPath_body params deg))\<^sup>2 + (pt_y (rebuildOrbitPath_body params deg))\<^sup>2
     + (pt_z (rebuildOrbitPath_body params deg))\<^sup>2 = (conic_radius params deg)\<^sup>2"
proof -
  have 1: "(cos (orb_raan params))\<^sup>2 + (sin (orb_raan params))\<^sup>2 = 1" by (rule sin_cos_squared_add2) 
  have 2: "(cos (orb_i params))\<^sup>2 + (sin (orb_i params))\<^sup>2 = 1" by (rule sin_cos_squared_add2) 
  have 3: "(cos (orb_w params))\<^sup>2 + (sin (orb_w params))\<^sup>2 = 1" by (rule sin_cos_squared_add2) 
  have 4: "(conic_radius params deg * cos ((deg * pi) / 180))\<^sup>2 + (conic_radius params deg * sin ((deg * pi) / 180))\<^sup>2
        = (conic_radius params deg)\<^sup>2"
    using sin_cos_squared_add2 [of "(deg * pi) / 180"] by algebra
  show ?thesis
    unfolding rebuildOrbitPath_body_def Let_def conic_radius_def [symmetric]
    using perifocal_rotation_isometry [OF 1 2 3, of "conic_radius params deg * cos ((deg * pi) / 180)" "conic_radius params deg * sin ((deg * pi) / 180)"] 4
    by simp
qed

lemma body_distance: "distance_to_origin (rebuildOrbitPath_body params deg) = \<bar>conic_radius params deg\<bar>"
  by (simp add: distance_to_origin_def body_square_distance)

lemma conic_radius_bounds:
  assumes "0 < orb_a params" "0 \<le> orb_e params" "orb_e params < 1"
  shows "orb_a params * (1 - orb_e params) \<le> conic_radius params deg"
    and "conic_radius params deg \<le> orb_a params * (1 + orb_e params)"
proof -
  let ?a = "orb_a params" and ?e = "orb_e params" and ?c = "cos ((deg * pi) / 180)"
  have c: "- 1 \<le> ?c" "?c \<le> 1" by simp_all
  have "- ?e \<le> ?e * ?c" using assms(2) c(1) mult_left_mono [of "-1" ?c ?e] by simp
  moreover have "?e * ?c \<le> ?e" using assms(2) c(2) mult_left_mono [of ?c 1 ?e] by simp
  ultimately have d: "1 - ?e \<le> 1 + ?e * ?c" "1 + ?e * ?c \<le> 1 + ?e" by simp_all
  have pos: "0 < 1 + ?e * ?c" using d(1) assms(3) by simp
  have f: "?a * (1 - ?e * ?e) = ?a * (1 - ?e) * (1 + ?e)" by (simp add: algebra_simps)
  have "?a * (1 - ?e) * (1 + ?e * ?c) \<le> ?a * (1 - ?e) * (1 + ?e)"
    using d(2) assms by (intro mult_left_mono) auto
  then show "?a * (1 - ?e) \<le> conic_radius params deg"
    unfolding conic_radius_def f using pos by (simp add: pos_le_divide_eq)
  have "?a * (1 + ?e) * (1 - ?e) \<le> ?a * (1 + ?e) * (1 + ?e * ?c)"
    using d(1) assms by (intro mult_left_mono) auto
  then show "conic_radius params deg \<le> ?a * (1 + ?e)"
    unfolding conic_radius_def f using pos by (simp add: pos_divide_le_eq algebra_simps)
qed

lemma conic_radius_periapsis:
  assumes "orb_e params \<noteq> - 1"
  shows "conic_radius params 0 = orb_a params * (1 - orb_e params)"
proof -
  have nz: "1 + orb_e params \<noteq> 0" using assms by arith
  have "conic_radius params 0 = orb_a params * (1 - orb_e params) * (1 + orb_e params) / (1 + orb_e params)"
    by (simp add: conic_radius_def algebra_simps)
  also have "\<dots> = orb_a params * (1 - orb_e params)" using nz by simp
  finally show ?thesis .
qed

lemma conic_radius_apoapsis:
  assumes "orb_e params \<noteq> 1"
  shows "conic_radius params 180 = orb_a params * (1 + orb_e params)"
proof -
  have nz: "1 - orb_e params \<noteq> 0" using assms by arith
  have "conic_radius params 180 = orb_a params * (1 + orb_e params) * (1 - orb_e params) / (1 - orb_e params)"
    by (simp add: conic_radius_def algebra_simps)
  also have "\<dots> = orb_a params * (1 + orb_e params)" using nz by simp
  finally show ?thesis .
qed

section \<open>The sampling loop\<close>

lemma loop_step:
  assumes "d < 360" and "fl (d + st) = d'"
  shows "while_option (\<lambda>(deg, points). deg < 360)
           (\<lambda>(deg, points). (fl (deg + st), points @ [f deg])) (d, acc)
         = while_option (\<lambda>(deg, points). deg < 360)
             (\<lambda>(deg, points). (fl (deg + st), points @ [f deg])) (d', acc @ [f d])"
  using assms by (subst while_option_unfold) simp

lemma loop_exit:
  assumes "\<not> d < 360"
  shows "while_option (\<lambda>(deg, points). deg < 360)
           (\<lambda>(deg, points). (fl (deg + st), points @ [f deg])) (d, acc) = Some (d, acc)"
  using assms by (subst while_option_unfold) simp

lemma increment_13: "fl (360 / 13) = 1948672915689157 / 70368744177664"
  by (simp add: fl_eval)

lemma counter_13_0: "fl (0 + 1948672915689157 / 70368744177664) = 1948672915689157 / 70368744177664"
  by (simp add: fl_eval)

lemma counter_13_1: "fl (1948672915689157 / 70368744177664 + 1948672915689157 / 70368744177664) = 1948672915689157 / 35184372088832"
  by (simp add: fl_eval)

lemma counter_13_2: "fl (1948672915689157 / 35184372088832 + 1948672915689157 / 70368744177664) = 5846018747067471 / 70368744177664"
  by (simp add: fl_eval)

lemma counter_13_3: "fl (5846018747067471 / 70368744177664 + 1948672915689157 / 70368744177664) = 1948672915689157 / 17592186044416"
  by (simp add: fl_eval)

lemma counter_13_4: "fl (1948672915689157 / 17592186044416 + 1948672915689157 / 70368744177664) = 1217920572305723 / 8796093022208"
  by (simp add: fl_eval)

lemma counter_13_5: "fl (1217920572305723 / 8796093022208 + 1948672915689157 / 70368744177664) = 2923009373533735 / 17592186044416"
  by (simp add: fl_eval)

lemma counter_13_6: "fl (2923009373533735 / 17592186044416 + 1948672915689157 / 70368744177664) = 426272200307003 / 2199023255552"
  by (simp add: fl_eval)

lemma counter_13_7: "fl (426272200307003 / 2199023255552 + 1948672915689157 / 70368744177664) = 3897345831378313 / 17592186044416"
  by (simp add: fl_eval)

lemma counter_13_8: "fl (3897345831378313 / 17592186044416 + 1948672915689157 / 70368744177664) = 2192257030150301 / 8796093022208"
  by (simp add: fl_eval)

lemma counter_13_9: "fl (2192257030150301 / 8796093022208 + 1948672915689157 / 70368744177664) = 4871682289222891 / 17592186044416"
  by (simp add: fl_eval)

lemma counter_13_10: "fl (4871682289222891 / 17592186044416 + 1948672915689157 / 70368744177664) = 1339712629536295 / 4398046511104"
  by (simp add: fl_eval)

lemma counter_13_11: "fl (1339712629536295 / 4398046511104 + 1948672915689157 / 70368744177664) = 5846018747067469 / 17592186044416"
  by (simp add: fl_eval)

lemma counter_13_12: "fl (5846018747067469 / 17592186044416 + 1948672915689157 / 70368744177664) = 3166593487994879 / 8796093022208"
  by (simp add: fl_eval)

lemma counter_13_13: "fl (3166593487994879 / 8796093022208 + 1948672915689157 / 70368744177664) = 6820355204912047 / 17592186044416"
  by (simp add: fl_eval)

lemma loop_13:
  "while_option (\<lambda>(deg, points). deg < 360)
     (\<lambda>(deg, points). (fl (deg + 1948672915689157 / 70368744177664), points @ [f deg])) (0, [])
   = Some (6820355204912047 / 17592186044416, [f (0), f (1948672915689157 / 70368744177664), f (1948672915689157 / 35184372088832), f (5846018747067471 / 70368744177664), f (1948672915689157 / 17592186044416), f (1217920572305723 / 8796093022208), f (2923009373533735 / 17592186044416), f (426272200307003 / 2199023255552), f (3897345831378313 / 17592186044416), f (2192257030150301 / 8796093022208), f (4871682289222891 / 17592186044416), f (1339712629536295 / 4398046511104), f (5846018747067469 / 17592186044416), f (3166593487994879 / 8796093022208)])"

  apply (subst loop_step [OF _ counter_13_0])
   apply simp

  apply (subst loop_step [OF _ counter_13_1])
   apply simp

  apply (subst loop_step [OF _ counter_13_2])
   apply simp

  apply (subst loop_step [OF _ counter_13_3])
   apply simp

  apply (subst loop_step [OF _ counter_13_4])
   apply simp

  apply (subst loop_step [OF _ counter_13_5])
   apply simp

  apply (subst loop_step [OF _ counter_13_6])
   apply simp

  apply (subst loop_step [OF _ counter_13_7])
   apply simp

  apply (subst loop_step [OF _ counter_13_8])
   apply simp

  apply (subst loop_step [OF _ counter_13_9])
   apply simp

  apply (subst loop_step [OF _ counter_13_10])
   apply simp

  apply (subst loop_step [OF _ counter_13_11])
   apply simp

  apply (subst loop_step [OF _ counter_13_12])
   apply simp

  apply (subst loop_step [OF _ counter_13_13])
   apply simp

  apply (subst loop_exit)
   apply simp
  apply simp
  done

lemma default_loop:
  assumes "k \<le> 360"
  shows "while_option (\<lambda>(deg, points). deg < 360)
           (\<lambda>(deg, points). (fl (deg + 1), points @ [f deg])) (real k, acc)
         = Some (360, acc @ map (\<lambda>j. f (real j)) [k..<360])"
  using assms
proof (induction "360 - k" arbitrary: k acc)
  case 0
  then have "k = 360" by simp
  then show ?case by (simp add: loop_exit)
next
  case (Suc m)
  then have lt: "k < 360" and m: "m = 360 - Suc k" and le: "Suc k \<le> 360" by simp_all
  have "fl (real (Suc k)) = real (Suc k)" using le by (intro fl_of_nat) simp
  then have step: "fl (real k + 1) = real (Suc k)" by (simp add: add.commute)
  have lt': "real k < 360" using lt by simp
  have u: "[k..<360] = k # [Suc k..<360]" using lt by (simp add: upt_conv_Cons)
  show ?case
    unfolding loop_step [OF lt' step] Suc.hyps(1) [OF m le] u by simp
qed

lemma rebuildOrbitPath_default:
  "rebuildOrbitPath params None = Some (map (\<lambda>j. rebuildOrbitPath_body params (real j)) [0..<360])"
proof -
  have "fl (360 / 360) = 1" using fl_of_nat [of 1] by simp
  then show ?thesis
    using default_loop [of 0 "rebuildOrbitPath_body params" "[]"]
    by (simp add: rebuildOrbitPath_def)
qed

lemma rebuildOrbitPath_points:
  assumes "rebuildOrbitPath params steps = Some path" and "q \<in> set path"
  shows "\<exists>deg. q = rebuildOrbitPath_body params deg"
proof (cases "(case steps of None \<Rightarrow> 360 | Some n \<Rightarrow> n) = (0::real)")
  case True
  then show ?thesis using assms by (auto simp: rebuildOrbitPath_def)
next
  case False
  let ?st = "fl (360 / (case steps of None \<Rightarrow> 360 | Some n \<Rightarrow> n))"
  from assms(1) False obtain d where
    w: "while_option (\<lambda>(deg, points). deg < 360)
          (\<lambda>(deg, points). (fl (deg + ?st), points @ [rebuildOrbitPath_body params deg])) (0, [])
        = Some (d, path)"
    by (auto simp: rebuildOrbitPath_def Let_def)
  have "(\<lambda>(deg, points). \<forall>q\<in>set points. \<exists>deg. q = rebuildOrbitPath_body params deg) (d, path)"
    by (rule while_option_rule [OF _ w]) auto
  then show ?thesis using assms(2) by simp
qed

subsection \<open>The path as a closed polyline\<close>

lemma drawOrbitPath_loop_started:
  "drawOrbitPath_loop project3D SCALE ps (ctx, True, first)
   = (ctx @ map (\<lambda>p. case project3D (pt_x p * SCALE, pt_y p * SCALE, pt_z p * SCALE) of
                        (sx, sy) \<Rightarrow> LineTo (Math_round sx) (Math_round sy)) ps,
      True, first)"
  by (induction ps arbitrary: ctx) (auto split: prod.splits)

text \<open>
  For a path that is not empty the surface receives the style, a \<open>moveTo\<close> at the first
  projected point, a \<open>lineTo\<close> at every further one, and then the closing \<open>lineTo\<close> back to the
  first projected point, before the stroke.
\<close>

lemma drawOrbitPath_closes_path:
  assumes "project3D (pt_x p * SCALE, pt_y p * SCALE, pt_z p * SCALE) = (sx, sy)"
  shows "drawOrbitPath ctx project3D SCALE (p # rest)
         = ctx @ [Save, SetImageSmoothingEnabled False, SetLineCap ''round'', SetLineJoin ''round'',
                  SetLineDash [6, 6], SetStrokeStyle ''rgba(255, 107, 53, 0.9)'', SetLineWidth 2,
                  BeginPath, MoveTo (Math_round sx) (Math_round sy)]
               @ map (\<lambda>p. case project3D (pt_x p * SCALE, pt_y p * SCALE, pt_z p * SCALE) of
                             (sx, sy) \<Rightarrow> LineTo (Math_round sx) (Math_round sy)) rest
               @ [LineTo (Math_round sx) (Math_round sy), Stroke, Restore]"
  using assms by (simp add: drawOrbitPath_def drawOrbitPath_loop_started)

text \<open>
  Claim C6, at the sample count 13. The quotient \<open>360 / 13\<close> is not a binary64 value, and the
  thirteen rounded additions end at \<open>3166593487994879 / 8796093022208\<close>, just below 360: the
  loop runs a fourteenth time, and the path has 14 points, the last of them a fourteenth sample
  next to the first.
\<close>

theorem rebuildOrbitPath_13_steps_14_points:
  "\<exists>path. rebuildOrbitPath params (Some 13) = Some path \<and> length path = 14
     \<and> path ! 13 = rebuildOrbitPath_body params (3166593487994879 / 8796093022208)
     \<and> 3166593487994879 / 8796093022208 < (360::real)"
  using loop_13 [of "rebuildOrbitPath_body params"]
  by (simp add: rebuildOrbitPath_def increment_13)

section \<open>Distances along the path\<close>

lemma conic_radius_circular: "orb_e params = 0 \<Longrightarrow> conic_radius params deg = orb_a params"
  by (simp add: conic_radius_def)

text \<open>
  Claim C3. With eccentricity 0, and whatever the inclination, the RAAN and the argument of
  periapsis, every point that \<open>rebuildOrbitPath\<close> returns lies at the distance \<open>a\<close> from the
  origin, for every sample count; with the default count the builder returns its 360 points.
\<close>

theorem circular_orbit_points_at_semi_major_axis:
  assumes "orb_e params = 0" and "0 \<le> orb_a params"
  shows "(\<exists>path. rebuildOrbitPath params None = Some path \<and> length path = 360)
         \<and> (\<forall>steps path q. rebuildOrbitPath params steps = Some path \<longrightarrow> q \<in> set path
               \<longrightarrow> distance_to_origin q = orb_a params)"
proof (intro conjI allI impI)
  show "\<exists>path. rebuildOrbitPath params None = Some path \<and> length path = 360"
    by (simp add: rebuildOrbitPath_default)
next
  fix steps path q
  assume "rebuildOrbitPath params steps = Some path" and "q \<in> set path"
  from rebuildOrbitPath_points [OF this] obtain deg where "q = rebuildOrbitPath_body params deg" ..
  then show "distance_to_origin q = orb_a params"
    using assms by (simp add: body_distance conic_radius_circular)
qed

theorem circular_orbit_points_at_semi_major_axis_witness:
  "orb_e \<lparr>orb_a = 10371, orb_e = 0, orb_i = 1, orb_raan = 2, orb_w = 3\<rparr> = 0
   \<and> 0 \<le> orb_a \<lparr>orb_a = 10371, orb_e = 0, orb_i = 1, orb_raan = 2, orb_w = 3\<rparr>
   \<and> (\<exists>path. rebuildOrbitPath \<lparr>orb_a = 10371, orb_e = 0, orb_i = 1, orb_raan = 2, orb_w = 3\<rparr> None
                 = Some path
         \<and> length path = 360 \<and> (\<forall>q\<in>set path. distance_to_origin q = 10371))"
  using circular_orbit_points_at_semi_major_axis
          [of "\<lparr>orb_a = 10371, orb_e = 0, orb_i = 1, orb_raan = 2, orb_w = 3\<rparr>"]
  by auto

lemma body_distance_bounds:
  assumes "0 < orb_a params" "0 \<le> orb_e params" "orb_e params < 1"
  shows "orb_a params * (1 - orb_e params) \<le> distance_to_origin (rebuildOrbitPath_body params deg)"
    and "distance_to_origin (rebuildOrbitPath_body params deg) \<le> orb_a params * (1 + orb_e params)"
proof -
  have "0 \<le> orb_a params * (1 - orb_e params)" using assms by simp
  then have "0 \<le> conic_radius params deg" using conic_radius_bounds(1) [OF assms, of deg] by linarith
  then have "distance_to_origin (rebuildOrbitPath_body params deg) = conic_radius params deg"
    by (simp add: body_distance)
  then show "orb_a params * (1 - orb_e params) \<le> distance_to_origin (rebuildOrbitPath_body params deg)"
    and "distance_to_origin (rebuildOrbitPath_body params deg) \<le> orb_a params * (1 + orb_e params)"
    using conic_radius_bounds [OF assms, of deg] by simp_all
qed

lemma body_distance_periapsis:
  assumes "0 < orb_a params" "0 \<le> orb_e params" "orb_e params < 1"
  shows "distance_to_origin (rebuildOrbitPath_body params 0) = orb_a params * (1 - orb_e params)"
proof -
  have "0 \<le> orb_a params * (1 - orb_e params)" using assms by simp
  moreover have "conic_radius params 0 = orb_a params * (1 - orb_e params)"
    using assms by (intro conic_radius_periapsis) simp
  ultimately show ?thesis by (simp add: body_distance)
qed

lemma body_distance_apoapsis:
  assumes "0 < orb_a params" "0 \<le> orb_e params" "orb_e params < 1"
  shows "distance_to_origin (rebuildOrbitPath_body params 180) = orb_a params * (1 + orb_e params)"
proof -
  have "0 \<le> orb_a params * (1 + orb_e params)" using assms by simp
  moreover have "conic_radius params 180 = orb_a params * (1 + orb_e params)"
    using assms by (intro conic_radius_apoapsis) simp
  ultimately show ?thesis by (simp add: body_distance)
qed

text \<open>
  Claim C2. For \<open>a > 0\<close> and \<open>0 < e < 1\<close> the path built with the default 360 samples has
  minimum distance \<open>a (1 - e)\<close> from the origin, reached at sample 0 (true anomaly 0 degrees),
  and maximum distance \<open>a (1 + e)\<close>, reached at sample 180 (true anomaly 180 degrees).
\<close>

theorem elliptic_orbit_extremes:
  assumes "0 < orb_a params" and "0 < orb_e params" and "orb_e params < 1"
  shows "\<exists>path. rebuildOrbitPath params None = Some path \<and> length path = 360
           \<and> path ! 0 = rebuildOrbitPath_body params 0
           \<and> path ! 180 = rebuildOrbitPath_body params 180
           \<and> Min (distance_to_origin ` set path) = orb_a params * (1 - orb_e params)
           \<and> distance_to_origin (path ! 0) = orb_a params * (1 - orb_e params)
           \<and> Max (distance_to_origin ` set path) = orb_a params * (1 + orb_e params)
           \<and> distance_to_origin (path ! 180) = orb_a params * (1 + orb_e params)"
proof -
  let ?path = "map (\<lambda>j. rebuildOrbitPath_body params (real j)) [0..<360]"
  have e0: "0 \<le> orb_e params" using assms(2) by simp
  have p0: "?path ! 0 = rebuildOrbitPath_body params 0" by simp
  have p180: "?path ! 180 = rebuildOrbitPath_body params 180" by simp
  have d0: "distance_to_origin (?path ! 0) = orb_a params * (1 - orb_e params)"
    unfolding p0 by (rule body_distance_periapsis [OF assms(1) e0 assms(3)])
  have d180: "distance_to_origin (?path ! 180) = orb_a params * (1 + orb_e params)"
    unfolding p180 by (rule body_distance_apoapsis [OF assms(1) e0 assms(3)])
  have m0: "?path ! 0 \<in> set ?path" by (rule nth_mem) simp
  have m180: "?path ! 180 \<in> set ?path" by (rule nth_mem) simp
  have all: "orb_a params * (1 - orb_e params) \<le> distance_to_origin q
             \<and> distance_to_origin q \<le> orb_a params * (1 + orb_e params)" if "q \<in> set ?path" for q
  proof -
    from that obtain j where "q = rebuildOrbitPath_body params (real j)" by auto
    then show ?thesis using body_distance_bounds [OF assms(1) e0 assms(3)] by simp
  qed
  have "Min (distance_to_origin ` set ?path) = orb_a params * (1 - orb_e params)"
  proof (rule Min_eqI)
    show "finite (distance_to_origin ` set ?path)" by simp
    show "orb_a params * (1 - orb_e params) \<le> y" if "y \<in> distance_to_origin ` set ?path" for y
      using that all by auto
    show "orb_a params * (1 - orb_e params) \<in> distance_to_origin ` set ?path"
      using m0 d0 by (metis imageI)
  qed
  moreover have "Max (distance_to_origin ` set ?path) = orb_a params * (1 + orb_e params)"
  proof (rule Max_eqI)
    show "finite (distance_to_origin ` set ?path)" by simp
    show "y \<le> orb_a params * (1 + orb_e params)" if "y \<in> distance_to_origin ` set ?path" for y
      using that all by auto
    show "orb_a params * (1 + orb_e params) \<in> distance_to_origin ` set ?path"
      using m180 d180 by (metis imageI)
  qed
  ultimately show ?thesis
    using d0 d180 p0 p180 by (intro exI [of _ ?path]) (simp add: rebuildOrbitPath_default)
qed

theorem elliptic_orbit_extremes_witness:
  "0 < orb_a \<lparr>orb_a = 10371, orb_e = 1 / 2, orb_i = 1, orb_raan = 2, orb_w = 3\<rparr>
   \<and> 0 < orb_e \<lparr>orb_a = 10371, orb_e = 1 / 2, orb_i = 1, orb_raan = 2, orb_w = 3\<rparr>
   \<and> orb_e \<lparr>orb_a = 10371, orb_e = 1 / 2, orb_i = 1, orb_raan = 2, orb_w = 3\<rparr> < 1
   \<and> (\<exists>path. rebuildOrbitPath \<lparr>orb_a = 10371, orb_e = 1 / 2, orb_i = 1, orb_raan = 2, orb_w = 3\<rparr> None
                = Some path
          \<and> Min (distance_to_origin ` set path) = 10371 / 2
          \<and> distance_to_origin (path ! 0) = 10371 / 2
          \<and> Max (distance_to_origin ` set path) = 31113 / 2
          \<and> distance_to_origin (path ! 180) = 31113 / 2)"
  using elliptic_orbit_extremes
          [of "\<lparr>orb_a = 10371, orb_e = 1 / 2, orb_i = 1, orb_raan = 2, orb_w = 3\<rparr>"]
  by auto

section \<open>The eccentricity clamp of the controller\<close>

lemma safe_eccentricity_range:
  assumes "EARTH_RADIUS \<le> 0.99 * activeSemiMajorAxis c"
  shows "0 < activeSemiMajorAxis c"
    and "0 \<le> max 0 (min eccentricity (getSafeMaxE c))"
    and "max 0 (min eccentricity (getSafeMaxE c)) < 1"
    and "EARTH_RADIUS + 0.01 * activeSemiMajorAxis c
           \<le> activeSemiMajorAxis c * (1 - max 0 (min eccentricity (getSafeMaxE c)))"
proof -
  let ?a = "activeSemiMajorAxis c"
  let ?raw = "1 - EARTH_RADIUS / ?a - 0.01"
  let ?e = "max 0 (min eccentricity (getSafeMaxE c))"
  have "0 < 0.99 * ?a" using assms by (simp add: EARTH_RADIUS_def)
  then show a: "0 < ?a" by simp
  have "EARTH_RADIUS / ?a \<le> 0.99" using assms a by (simp add: pos_divide_le_eq)
  then have raw: "0 \<le> ?raw" by simp
  have g: "getSafeMaxE c = min 0.95 ?raw" using raw by (simp add: getSafeMaxE_def Let_def)
  have g0: "0 \<le> getSafeMaxE c" unfolding g using raw by (simp add: min_def)
  have g1: "getSafeMaxE c \<le> 0.95" unfolding g by (rule min.cobounded1)
  have g2: "getSafeMaxE c \<le> ?raw" unfolding g by (rule min.cobounded2)
  show "0 \<le> ?e" by simp
  have e1: "?e \<le> getSafeMaxE c" using g0 by (simp add: max_def min_def)
  moreover have "(0.95::real) < 1" by simp
  ultimately show "?e < 1" using g1 by linarith
  have "?e \<le> ?raw" using e1 g2 by linarith
  then have "?a * ?e \<le> ?a * ?raw" using a by (intro mult_left_mono) simp_all
  also have "?a * ?raw = ?a - EARTH_RADIUS - 0.01 * ?a" using a by (simp add: algebra_simps)
  finally show "EARTH_RADIUS + 0.01 * ?a \<le> ?a * (1 - ?e)" by (simp add: algebra_simps)
qed

lemma activeSemiMajorAxis_satelliteRef [simp]:
  "activeSemiMajorAxis (c\<lparr>satelliteRef := s\<rparr>) = activeSemiMajorAxis c"
  by (simp add: activeSemiMajorAxis_def)

lemma getSafeMaxE_satelliteRef [simp]:
  "getSafeMaxE (c\<lparr>satelliteRef := s\<rparr>) = getSafeMaxE c"
  by (simp add: getSafeMaxE_def)

lemma rebuild_result:
  assumes "wasmRef c"
  shows "rebuild c inclinationDeg eccentricity
        = Some (c\<lparr>satelliteRef := Some [activeSemiMajorAxis c,
                      max 0 (min eccentricity (1 - (EARTH_RADIUS / activeSemiMajorAxis c) - 0.01)),
                      inclinationDeg, 0, 0, 0, 1000, 300, 1000],
                   orbitParamsRef := Some
                     \<lparr>orb_a = activeSemiMajorAxis c,
                      orb_e = max 0 (min eccentricity (getSafeMaxE c)),
                      orb_i = inclinationDeg * pi / 180, orb_raan = 0, orb_w = 0\<rparr>,
                   orbitPathRef := map (\<lambda>j. rebuildOrbitPath_body
                     \<lparr>orb_a = activeSemiMajorAxis c,
                      orb_e = max 0 (min eccentricity (getSafeMaxE c)),
                      orb_i = inclinationDeg * pi / 180, orb_raan = 0, orb_w = 0\<rparr> (real j)) [0..<360],
                   trailRef := []\<rparr>)"
  using assms
  by (simp add: rebuild_def OrbitCanvas_rebuildOrbitPath_def Let_def rebuildOrbitPath_default)

text \<open>
  Claim C1. The controller clamps the selected eccentricity to \<open>e' = max 0 (min e safeMax)\<close>.
  Whenever the active semi-major axis \<open>a\<close> satisfies \<open>EARTH_RADIUS \<le> 0.99 a\<close>, as the only value
  the controller ever uses (10371) does, the periapsis \<open>a (1 - e')\<close> is at least
  \<open>EARTH_RADIUS + 0.01 a\<close>, and every point of the path that \<open>rebuild\<close> stores lies at least that
  far from the origin, hence never closer than the body radius 6371.
\<close>

theorem rebuild_keeps_periapsis_above_body:
  assumes "wasmRef c" and "EARTH_RADIUS \<le> 0.99 * activeSemiMajorAxis c"
  shows "EARTH_RADIUS + 0.01 * activeSemiMajorAxis c
           \<le> activeSemiMajorAxis c * (1 - max 0 (min eccentricity (getSafeMaxE c)))
         \<and> (\<exists>c'. rebuild c inclinationDeg eccentricity = Some c'
               \<and> orbitParamsRef c' = Some
                     \<lparr>orb_a = activeSemiMajorAxis c,
                      orb_e = max 0 (min eccentricity (getSafeMaxE c)),
                      orb_i = inclinationDeg * pi / 180, orb_raan = 0, orb_w = 0\<rparr>
               \<and> length (orbitPathRef c') = 360
               \<and> (\<forall>q\<in>set (orbitPathRef c').
                     EARTH_RADIUS + 0.01 * activeSemiMajorAxis c \<le> distance_to_origin q))"
proof -
  let ?params = "\<lparr>orb_a = activeSemiMajorAxis c,
                   orb_e = max 0 (min eccentricity (getSafeMaxE c)),
                   orb_i = inclinationDeg * pi / 180, orb_raan = 0, orb_w = 0\<rparr>"
  let ?path = "map (\<lambda>j. rebuildOrbitPath_body ?params (real j)) [0..<360]"
  let ?c' = "c\<lparr>satelliteRef := Some [activeSemiMajorAxis c,
                      max 0 (min eccentricity (1 - (EARTH_RADIUS / activeSemiMajorAxis c) - 0.01)),
                      inclinationDeg, 0, 0, 0, 1000, 300, 1000],
                orbitParamsRef := Some ?params, orbitPathRef := ?path, trailRef := []\<rparr>"
  note r = safe_eccentricity_range [OF assms(2)]
  note r4 = safe_eccentricity_range(4) [OF assms(2), of eccentricity]
  have far: "EARTH_RADIUS + 0.01 * activeSemiMajorAxis c \<le> distance_to_origin q"
    if "q \<in> set ?path" for q
  proof -
    from that obtain j where q: "q = rebuildOrbitPath_body ?params (real j)" by auto
    have "orb_a ?params * (1 - orb_e ?params) \<le> distance_to_origin q"
      unfolding q by (rule body_distance_bounds(1)) (use r in simp_all)
    then show ?thesis using r4 by simp
  qed
  have 1: "rebuild c inclinationDeg eccentricity = Some ?c'" by (rule rebuild_result [OF assms(1)])
  have 2: "orbitParamsRef ?c' = Some ?params" by simp
  have 3: "length (orbitPathRef ?c') = 360" by simp
  have 4: "\<forall>q\<in>set (orbitPathRef ?c'). EARTH_RADIUS + 0.01 * activeSemiMajorAxis c \<le> distance_to_origin q"
    using far by simp
  from r4 1 2 3 4 show ?thesis by blast
qed

theorem rebuild_keeps_periapsis_above_body_witness:
  "wasmRef \<lparr>canvasRef = True, wasmRef = True, satelliteRef = None, semiMajorAxisRef = 0, orbitParamsRef = None,
             orbitPathRef = [], trailRef = [], starsRef = []\<rparr>
   \<and> EARTH_RADIUS \<le> 0.99 * activeSemiMajorAxis
        \<lparr>canvasRef = True, wasmRef = True, satelliteRef = None, semiMajorAxisRef = 0, orbitParamsRef = None,
         orbitPathRef = [], trailRef = [], starsRef = []\<rparr>
   \<and> (\<exists>c'. rebuild \<lparr>canvasRef = True, wasmRef = True, satelliteRef = None, semiMajorAxisRef = 0,
                      orbitParamsRef = None, orbitPathRef = [], trailRef = [], starsRef = []\<rparr>
               51.6 0.9 = Some c'
          \<and> length (orbitPathRef c') = 360
          \<and> (\<forall>q\<in>set (orbitPathRef c'). 6371 + 103.71 \<le> distance_to_origin q))"
proof -
  let ?c = "\<lparr>canvasRef = True, wasmRef = True, satelliteRef = None, semiMajorAxisRef = 0, orbitParamsRef = None,
             orbitPathRef = [], trailRef = [], starsRef = []\<rparr>"
  have a: "activeSemiMajorAxis ?c = 10371"
    by (simp add: activeSemiMajorAxis_def EARTH_RADIUS_def)
  have h1: "wasmRef ?c" by simp
  have h2: "EARTH_RADIUS \<le> 0.99 * activeSemiMajorAxis ?c" by (simp add: a EARTH_RADIUS_def)
  from rebuild_keeps_periapsis_above_body
         [OF h1 h2, where eccentricity = "0.9" and inclinationDeg = "51.6"]
  obtain c' where c': "rebuild ?c 51.6 0.9 = Some c'" "length (orbitPathRef c') = 360"
    "\<forall>q\<in>set (orbitPathRef c'). EARTH_RADIUS + 0.01 * activeSemiMajorAxis ?c \<le> distance_to_origin q"
    by blast
  have "\<forall>q\<in>set (orbitPathRef c'). 6371 + 103.71 \<le> distance_to_origin q"
    using c'(3) unfolding a EARTH_RADIUS_def by simp
  with h1 h2 c'(1,2) show ?thesis by blast
qed

end
